theory Spec2Isabelle
  imports Complex_Main "HOL-Library.Multiset"
begin

section \<open>Numbers, dates and the scope of the model\<close>

text \<open>
  The program is TypeScript. A JavaScript \<open>number\<close> is modelled as an exact \<^typ>\<open>real\<close>
  and a time stamp (\<open>Date.getTime()\<close>, milliseconds since the epoch) as an \<^typ>\<open>int\<close>:
  rounding, \<open>NaN\<close> and the infinities of IEEE arithmetic are outside the model. An
  expiry date is kept as the string the record holds; the conversion
  \<open>new Date(s).getTime()\<close> is a builtin of the language and is passed to the functions
  below as the parameter \<open>getTime\<close>. It yields a time stamp for every string, so a
  string that is no date (whose time stamp would be \<open>NaN\<close>) is outside the model too.
  The current instant \<open>new Date()\<close> is the parameter \<open>now\<close>.
\<close>

section \<open>Inventory aggregation (the dashboard component)\<close>

record FoodItem =
  ident :: string
  name :: string
  quantity :: real
  expiryDate :: string
  category :: string
  costPerKg :: real


subsection \<open>Category roll-up\<close>

record CategoryTotal =
  category :: string
  quantity :: real
  "value" :: real




subsection \<open>Expiry buckets\<close>


record StatusValue =
  status :: string
  "value" :: real





subsection \<open>At-risk value\<close>



section \<open>The forecaster (class WastePredictionModel)\<close>

text \<open>\<open>category?: string\<close>: \<open>None\<close> is the absent (undefined) property.\<close>

record WastePredictionInput =
  dayOfWeek :: real
  temperature :: real
  humidity :: real
  stockLevel :: real
  previousDayWaste :: real
  category :: "string option"

text \<open>
  What a call can throw: \<open>Error msg\<close> is \<open>throw new Error(msg)\<close> in the class itself,
  \<open>Thrown msg\<close> an exception that comes out of a call into one of the two numeric
  libraries.
\<close>

datatype error = Error string | Thrown string

subsection \<open>The numeric libraries, as parameters\<close>

datatype activation = relu

datatype layer =
  dense "nat list option" nat "activation option"
| dropout real

datatype optimizer = adam real

record compileArgs =
  optimizer :: optimizer
  loss :: string
  metrics :: "string list"

record fitArgs =
  epochs :: nat
  batchSize :: nat
  validationSplit :: real
  shuffle :: "bool option"

text \<open>
  The network library and the regression library are not part of the repository. The
  model takes their behaviour during a call as a record of functions: \<open>'net\<close> is a
  network object, \<open>'mlr\<close> a fitted linear regressor, \<open>'tensor\<close> a tensor. A call that
  can reject its argument returns \<open>Inl msg\<close> for the exception. \<open>fit\<close> works on the
  network in place, so it returns the network as it leaves it together with the
  exception, if any. \<open>predictNet net rows\<close> stands for
  \<open>net.predict(tf.tensor2d(rows)).dataSync()[0]\<close> and \<open>predictMLR m rows\<close> for the
  first number of \<open>m.predict(rows)\<close>, both on the single row of five numbers that
  \<open>predict\<close> builds.
\<close>

record ('net, 'mlr, 'tensor) library =
  newMLR :: "real list list \<Rightarrow> real list list \<Rightarrow> string + 'mlr"
  sequential :: "layer list \<Rightarrow> 'net"
  compile :: "'net \<Rightarrow> compileArgs \<Rightarrow> 'net"
  tensor2d :: "real option list list \<Rightarrow> string + 'tensor"
  fit :: "'net \<Rightarrow> 'tensor \<Rightarrow> 'tensor \<Rightarrow> fitArgs \<Rightarrow> 'net \<times> string option"
  predictNet :: "'net \<Rightarrow> real list list \<Rightarrow> real"
  predictMLR :: "'mlr \<Rightarrow> real list list \<Rightarrow> real"

subsection \<open>State\<close>

record ('net, 'mlr) WastePredictionModel =
  model :: "'net option"
  mlr :: "'mlr option"
  categoryModels :: "string \<rightharpoonup> 'net"

definition new_WastePredictionModel :: "('net, 'mlr) WastePredictionModel" where
  "new_WastePredictionModel = \<lparr>model = None, mlr = None, categoryModels = Map.empty\<rparr>"

text \<open>The five numbers that \<open>train\<close>, \<open>trainCategoryModel\<close> and \<open>predict\<close> read from a sample.\<close>

definition inputArray :: "WastePredictionInput \<Rightarrow> real list" where
  "inputArray d = [dayOfWeek d, temperature d, humidity d, stockLevel d, previousDayWaste d]"

subsection \<open>train\<close>

definition generalLayers :: "layer list" where
  "generalLayers =
     [dense (Some [5]) 16 (Some relu), dropout 0.2, dense None 8 (Some relu), dense None 1 None]"

definition generalCompile :: compileArgs where
  "generalCompile = \<lparr>optimizer = adam 0.01, loss = ''meanSquaredError'', metrics = [''mse'']\<rparr>"

definition generalFit :: fitArgs where
  "generalFit = \<lparr>epochs = 150, batchSize = 32, validationSplit = 0.2, shuffle = Some True\<rparr>"

text \<open>
  The state after each assignment is explicit: \<open>this.mlr\<close> is assigned once the
  regressor's constructor has returned, \<open>this.model\<close> before the tensors are built.
  An exception leaves the method with the state reached so far. Building and compiling
  the network from the constant layer list is taken not to throw.
\<close>

definition train ::
  "('net, 'mlr, 'tensor) library \<Rightarrow> ('net, 'mlr) WastePredictionModel \<Rightarrow>
   WastePredictionInput list \<Rightarrow> real list \<Rightarrow>
   ('net, 'mlr) WastePredictionModel \<times> (error + unit)" where
  "train L st historicalData wasteAmounts =
     (let X = map inputArray historicalData;
          y = map (\<lambda>amount. [amount]) wasteAmounts
      in case newMLR L X y of
           Inl e \<Rightarrow> (st, Inl (Thrown e))
         | Inr m \<Rightarrow>
             (let st1 = st\<lparr>mlr := Some m\<rparr>;
                  net = compile L (sequential L generalLayers) generalCompile;
                  st2 = st1\<lparr>model := Some net\<rparr>
              in case tensor2d L (map (map Some) X) of
                   Inl e \<Rightarrow> (st2, Inl (Thrown e))
                 | Inr xs \<Rightarrow>
                     (case tensor2d L (map (map Some) y) of
                        Inl e \<Rightarrow> (st2, Inl (Thrown e))
                      | Inr ys \<Rightarrow>
                          (case fit L net xs ys generalFit of
                             (net', Some e) \<Rightarrow> (st2\<lparr>model := Some net'\<rparr>, Inl (Thrown e))
                           | (net', None) \<Rightarrow> (st2\<lparr>model := Some net'\<rparr>, Inr ())))))"

subsection \<open>trainCategoryModel\<close>

definition categoryLayers :: "layer list" where
  "categoryLayers = [dense (Some [5]) 12 (Some relu), dense None 6 (Some relu), dense None 1 None]"

definition categoryCompile :: compileArgs where
  "categoryCompile = \<lparr>optimizer = adam 0.01, loss = ''meanSquaredError'', metrics = []\<rparr>"

definition categoryFit :: fitArgs where
  "categoryFit = \<lparr>epochs = 100, batchSize = 16, validationSplit = 0.2, shuffle = None\<rparr>"

text \<open>
  The targets are \<^typ>\<open>real option list\<close>: \<open>updateModel\<close> fills the array by indexing,
  and an index out of range reads \<open>undefined\<close> (\<open>None\<close>).

  \<open>fitCategoryNet\<close> is the part of \<open>trainCategoryModel\<close> before
  \<open>this.categoryModels.set\<close>: it touches no field of the object.
\<close>

definition fitCategoryNet ::
  "('net, 'mlr, 'tensor) library \<Rightarrow> WastePredictionInput list \<Rightarrow> real option list \<Rightarrow>
   error + 'net" where
  "fitCategoryNet L data wasteAmounts =
     (let net = compile L (sequential L categoryLayers) categoryCompile;
          X = map inputArray data
      in case tensor2d L (map (map Some) X) of
           Inl e \<Rightarrow> Inl (Thrown e)
         | Inr xs \<Rightarrow>
             (case tensor2d L (map (\<lambda>v. [v]) wasteAmounts) of
                Inl e \<Rightarrow> Inl (Thrown e)
              | Inr ys \<Rightarrow>
                  (case fit L net xs ys categoryFit of
                     (net', Some e) \<Rightarrow> Inl (Thrown e)
                   | (net', None) \<Rightarrow> Inr net')))"

definition trainCategoryModel ::
  "('net, 'mlr, 'tensor) library \<Rightarrow> ('net, 'mlr) WastePredictionModel \<Rightarrow> string \<Rightarrow>
   WastePredictionInput list \<Rightarrow> real option list \<Rightarrow>
   ('net, 'mlr) WastePredictionModel \<times> (error + unit)" where
  "trainCategoryModel L st cat data wasteAmounts =
     (case fitCategoryNet L data wasteAmounts of
        Inl e \<Rightarrow> (st, Inl e)
      | Inr net \<Rightarrow> (st\<lparr>categoryModels := (categoryModels st)(cat \<mapsto> net)\<rparr>, Inr ()))"

subsection \<open>predict\<close>

record PredictionResult =
  nnPrediction :: real
  mlrPrediction :: real
  categoryPrediction :: "real option"
  confidence :: real

text \<open>
  JavaScript's conversion to a boolean, on an optional string: \<open>undefined\<close> and the empty
  string are false. It is what \<open>input.category && \<dots>\<close>, \<open>filter(Boolean)\<close> and
  \<open>!category\<close> apply.
\<close>

definition Boolean :: "string option \<Rightarrow> bool" where
  "Boolean c = (case c of None \<Rightarrow> False | Some s \<Rightarrow> s \<noteq> [])"

text \<open>
  The three constants \<open>mean\<close>, \<open>variance\<close> and \<open>confidence\<close> of \<open>predict\<close>, as a
  function of the array \<open>predictions\<close>. \<open>Math.pow(x, 2)\<close> is the square.
\<close>

definition ensemble_confidence :: "real list \<Rightarrow> real" where
  "ensemble_confidence predictions =
     (let mean = foldl (\<lambda>a b. a + b) 0 predictions / real (length predictions);
          variance = foldl (\<lambda>a b. a + (b - mean) ^ 2) 0 predictions / real (length predictions)
      in max 0 (100 - variance * 10))"

text \<open>
  \<open>predict\<close> assigns no field; the state is returned as it came, so that every method
  has the same shape. \<open>categoryResult\<close> is \<open>None\<close> for \<open>undefined\<close>.
\<close>

definition predict ::
  "('net, 'mlr, 'tensor) library \<Rightarrow> ('net, 'mlr) WastePredictionModel \<Rightarrow>
   WastePredictionInput \<Rightarrow> ('net, 'mlr) WastePredictionModel \<times> (error + PredictionResult)" where
  "predict L st input =
     (case model st of
        None \<Rightarrow> (st, Inl (Error ''Model not trained''))
      | Some net \<Rightarrow>
          (case mlr st of
             None \<Rightarrow> (st, Inl (Error ''Model not trained''))
           | Some m \<Rightarrow>
               (let nnResult = predictNet L net [inputArray input];
                    mlrResult = predictMLR L m [inputArray input];
                    categoryResult =
                      (case category input of
                         None \<Rightarrow> None
                       | Some c \<Rightarrow>
                           (if Boolean (Some c) then
                              (case categoryModels st c of
                                 None \<Rightarrow> None
                               | Some categoryModel \<Rightarrow>
                                   Some (predictNet L categoryModel [inputArray input]))
                            else None));
                    predictions =
                      [nnResult, mlrResult] @
                      (case categoryResult of None \<Rightarrow> [] | Some c \<Rightarrow> [c])
                in (st, Inr \<lparr>nnPrediction = nnResult, mlrPrediction = mlrResult,
                             categoryPrediction = categoryResult,
                             confidence = ensemble_confidence predictions\<rparr>))))"

subsection \<open>updateModel\<close>

text \<open>
  \<open>updateModel\<close> compares samples with \<open>===\<close>, which on objects is identity, so the
  batch is a list of references into a store \<open>h\<close> of sample objects.
\<close>

type_synonym ref = nat

text \<open>\<open>xs.findIndex(p)\<close>: the first index whose element satisfies \<open>p\<close>, or \<open>-1\<close>.\<close>

fun findIndex :: "('a \<Rightarrow> bool) \<Rightarrow> 'a list \<Rightarrow> int" where
  "findIndex p [] = - 1"
| "findIndex p (x # xs) =
     (if p x then 0 else (let i = findIndex p xs in if i < 0 then - 1 else i + 1))"

text \<open>\<open>xs[i]\<close>: \<open>undefined\<close> outside the array.\<close>

definition at_index :: "'a list \<Rightarrow> int \<Rightarrow> 'a option" where
  "at_index xs i = (if 0 \<le> i \<and> i < int (length xs) then Some (xs ! nat i) else None)"

text \<open>\<open>new Set(xs)\<close>, as the list of its elements in insertion order.\<close>

definition new_Set :: "'a list \<Rightarrow> 'a list" where
  "new_Set xs = foldl (\<lambda>s x. if x \<in> set s then s else s @ [x]) [] xs"

definition categories :: "(ref \<Rightarrow> WastePredictionInput) \<Rightarrow> ref list \<Rightarrow> string option list" where
  "categories h newData = new_Set (filter Boolean (map (\<lambda>d. category (h d)) newData))"

definition categoryData ::
  "(ref \<Rightarrow> WastePredictionInput) \<Rightarrow> ref list \<Rightarrow> string option \<Rightarrow> ref list" where
  "categoryData h newData c = filter (\<lambda>d. category (h d) = c) newData"

definition categoryWaste :: "ref list \<Rightarrow> real list \<Rightarrow> ref list \<Rightarrow> real option list" where
  "categoryWaste newData newWasteAmounts catData =
     map (\<lambda>i. at_index newWasteAmounts (findIndex (\<lambda>nd. nd = catData ! i) newData))
       [0..<length catData]"

text \<open>The \<open>for \<dots> of\<close> loop over the set of categories; an exception leaves the loop.\<close>

fun updateCategories ::
  "('net, 'mlr, 'tensor) library \<Rightarrow> (ref \<Rightarrow> WastePredictionInput) \<Rightarrow> ref list \<Rightarrow> real list \<Rightarrow>
   ('net, 'mlr) WastePredictionModel \<Rightarrow> string option list \<Rightarrow>
   ('net, 'mlr) WastePredictionModel \<times> (error + unit)" where
  "updateCategories L h newData newWasteAmounts st [] = (st, Inr ())"
| "updateCategories L h newData newWasteAmounts st (c # cs) =
     (case c of
        None \<Rightarrow> updateCategories L h newData newWasteAmounts st cs
      | Some cat \<Rightarrow>
          (if \<not> Boolean (Some cat) then updateCategories L h newData newWasteAmounts st cs
           else
             (case trainCategoryModel L st cat (map h (categoryData h newData c))
                     (categoryWaste newData newWasteAmounts (categoryData h newData c)) of
                (st', Inl e) \<Rightarrow> (st', Inl e)
              | (st', Inr u) \<Rightarrow> updateCategories L h newData newWasteAmounts st' cs)))"

definition updateModel ::
  "('net, 'mlr, 'tensor) library \<Rightarrow> ('net, 'mlr) WastePredictionModel \<Rightarrow>
   (ref \<Rightarrow> WastePredictionInput) \<Rightarrow> ref list \<Rightarrow> real list \<Rightarrow>
   ('net, 'mlr) WastePredictionModel \<times> (error + unit)" where
  "updateModel L st h newData newWasteAmounts =
     (case train L st (map h newData) newWasteAmounts of
        (st1, Inl e) \<Rightarrow> (st1, Inl e)
      | (st1, Inr u) \<Rightarrow>
          updateCategories L h newData newWasteAmounts st1 (categories h newData))"

subsection \<open>A library double for running the model\<close>

text \<open>
  To run the model on concrete batches the library parameter needs a value. In this
  one a component is the record of how it was made: a regressor is the batch it was
  built from, a network its layers and the tensors it was fitted on, a tensor its
  rows. \<open>fit\<close> rejects tensors with different numbers of rows and nothing else is
  rejected. A network predicts the number of its layers, a regressor the sum of the
  row.
\<close>

type_synonym rec_tensor = "real option list list"
type_synonym rec_net = "layer list \<times> (rec_tensor \<times> rec_tensor) option"
type_synonym rec_mlr = "real list list \<times> real list list"

definition recordingLibrary :: "(rec_net, rec_mlr, rec_tensor) library" where
  "recordingLibrary =
     \<lparr>newMLR = (\<lambda>X y. Inr (X, y)),
      sequential = (\<lambda>layers. (layers, None)),
      compile = (\<lambda>net args. net),
      tensor2d = (\<lambda>rows. Inr rows),
      fit = (\<lambda>net xs ys args.
               if length xs = length ys then ((fst net, Some (xs, ys)), None)
               else (net, Some ''different numbers of samples'')),
      predictNet = (\<lambda>net rows. real (length (fst net))),
      predictMLR = (\<lambda>m rows. sum_list (concat rows))\<rparr>"


definition sample :: "string option \<Rightarrow> WastePredictionInput" where
  "sample c = \<lparr>dayOfWeek = 1, temperature = 0, humidity = 0, stockLevel = 0,
               previousDayWaste = 1, category = c\<rparr>"

text \<open>
  States reached from a new object through the public methods with this library; they
  serve as concrete inputs.
\<close>

definition trained_once :: "(rec_net, rec_mlr) WastePredictionModel" where
  "trained_once = fst (train recordingLibrary new_WastePredictionModel [sample None] [1])"

definition with_empty_key :: "(rec_net, rec_mlr) WastePredictionModel" where
  "with_empty_key =
     fst (trainCategoryModel recordingLibrary trained_once [] [sample (Some [])] [Some 1])"

definition with_produce :: "(rec_net, rec_mlr) WastePredictionModel" where
  "with_produce =
     fst (trainCategoryModel recordingLibrary trained_once ''Produce''
            [sample (Some ''Produce'')] [Some 1])"

definition with_two :: "(rec_net, rec_mlr) WastePredictionModel" where
  "with_two =
     fst (trainCategoryModel recordingLibrary with_produce ''Dairy''
            [sample (Some ''Dairy'')] [Some 2])"

subsection \<open>The confidence in the spec's words\<close>




section \<open>Properties of the aggregation layer\<close>
















section \<open>Properties of the forecaster\<close>

subsection \<open>The library double at work\<close>

lemma trained_once_eq:
  "trained_once =
     \<lparr>model = Some (generalLayers, Some ([[Some 1, Some 0, Some 0, Some 0, Some 1]], [[Some 1]])),
      mlr = Some ([[1, 0, 0, 0, 1]], [[1]]), categoryModels = Map.empty\<rparr>"
  by (simp add: trained_once_def train_def recordingLibrary_def new_WastePredictionModel_def
      sample_def inputArray_def)

lemma with_empty_key_eq:
  "with_empty_key =
     trained_once\<lparr>categoryModels :=
       [[] \<mapsto> (categoryLayers, Some ([[Some 1, Some 0, Some 0, Some 0, Some 1]], [[Some 1]]))]\<rparr>"
  by (simp add: with_empty_key_def trainCategoryModel_def fitCategoryNet_def recordingLibrary_def
      sample_def inputArray_def trained_once_eq)

lemma with_produce_eq:
  "with_produce =
     trained_once\<lparr>categoryModels :=
       [''Produce'' \<mapsto>
          (categoryLayers, Some ([[Some 1, Some 0, Some 0, Some 0, Some 1]], [[Some 1]]))]\<rparr>"
  by (simp add: with_produce_def trainCategoryModel_def fitCategoryNet_def recordingLibrary_def
      sample_def inputArray_def trained_once_eq)

lemma with_two_eq:
  "with_two =
     trained_once\<lparr>categoryModels :=
       [''Produce'' \<mapsto>
          (categoryLayers, Some ([[Some 1, Some 0, Some 0, Some 0, Some 1]], [[Some 1]])),
        ''Dairy'' \<mapsto>
          (categoryLayers, Some ([[Some 1, Some 0, Some 0, Some 0, Some 1]], [[Some 2]]))]\<rparr>"
  by (simp add: with_two_def trainCategoryModel_def fitCategoryNet_def recordingLibrary_def
      sample_def inputArray_def with_produce_eq trained_once_eq)

lemma categories_one: "categories (\<lambda>r. sample (Some c)) [0] = (if c = [] then [] else [Some c])"
  by (simp add: categories_def new_Set_def Boolean_def sample_def)

lemma categories_twice:
  "categories (\<lambda>r. sample (Some ''Produce'')) [0, 0] = [Some ''Produce'']"
  by (simp add: categories_def new_Set_def Boolean_def sample_def)

lemma categoryWaste_one: "categoryWaste [0] [w] [0] = [Some w]"
  by (simp add: categoryWaste_def at_index_def)

lemma categoryWaste_twice: "categoryWaste [0, 0] [1, 2] [0, 0] = [Some 1, Some 1]"
  by (simp add: categoryWaste_def at_index_def upt_rec)

subsection \<open>train\<close>


lemma train_categoryModels:
  "categoryModels (fst (train L st historicalData wasteAmounts)) = categoryModels st"
  by (simp add: train_def Let_def split: sum.splits prod.splits option.splits)




subsection \<open>predict\<close>










text \<open>
  C8 (amended). On an object with both general components, \<open>predict\<close> returns a
  result, and the result has a category prediction if and only if the observation's
  category is a non-empty string and the per-category map has a component for it.
\<close>

theorem category_prediction_iff:
  assumes "model st = Some net" and "mlr st = Some m"
  shows "\<exists>r. predict L st input = (st, Inr r) \<and>
             (categoryPrediction r \<noteq> None \<longleftrightarrow>
                (\<exists>c. category input = Some c \<and> c \<noteq> [] \<and> categoryModels st c \<noteq> None))"
  using assms
  by (auto simp: predict_def Let_def Boolean_def split: option.splits)

theorem category_prediction_iff_witness:
  "(\<exists>r. predict recordingLibrary with_produce (sample (Some ''Produce'')) =
          (with_produce, Inr r) \<and>
        (categoryPrediction r \<noteq> None \<longleftrightarrow>
           (\<exists>c. category (sample (Some ''Produce'')) = Some c \<and> c \<noteq> [] \<and>
                categoryModels with_produce c \<noteq> None))) \<and>
   snd (predict recordingLibrary with_produce (sample (Some ''Produce''))) =
     Inr \<lparr>nnPrediction = 4, mlrPrediction = 2, categoryPrediction = Some 3,
           confidence = 280 / 3\<rparr>"
proof -
  have 1: "model with_produce =
      Some (generalLayers, Some ([[Some 1, Some 0, Some 0, Some 0, Some 1]], [[Some 1]]))"
    by (simp add: with_produce_eq trained_once_eq)
  have 2: "mlr with_produce = Some ([[1, 0, 0, 0, 1]], [[1]])"
    by (simp add: with_produce_eq trained_once_eq)
  have 3: "snd (predict recordingLibrary with_produce (sample (Some ''Produce''))) =
     Inr \<lparr>nnPrediction = 4, mlrPrediction = 2, categoryPrediction = Some 3,
           confidence = 280 / 3\<rparr>"
    by (simp add: with_produce_eq trained_once_eq predict_def Let_def Boolean_def
        recordingLibrary_def sample_def inputArray_def generalLayers_def categoryLayers_def
        ensemble_confidence_def power2_eq_square)
  from category_prediction_iff [OF 1 2] 3 show ?thesis
    by blast
qed

text \<open>
  C8, as stated, fails: the category is set (to the empty string) and the map has a
  component under that key, stored by \<open>trainCategoryModel\<close>, yet the result has no
  category prediction.
\<close>

theorem empty_category_not_queried:
  "category (sample (Some [])) = Some [] \<and>
   categoryModels with_empty_key [] \<noteq> None \<and>
   model with_empty_key \<noteq> None \<and> mlr with_empty_key \<noteq> None \<and>
   snd (predict recordingLibrary with_empty_key (sample (Some []))) =
     Inr \<lparr>nnPrediction = 4, mlrPrediction = 2, categoryPrediction = None, confidence = 90\<rparr>"
  by (simp add: with_empty_key_eq trained_once_eq predict_def Let_def Boolean_def
      recordingLibrary_def sample_def inputArray_def generalLayers_def ensemble_confidence_def
      power2_eq_square)

text \<open>
  C10. \<open>predict\<close> returns the state it was given: the network, the linear regressor and
  the per-category map are the same before and after, and a second call with the same
  observation returns the same result.
\<close>

theorem predict_leaves_state:
  "fst (predict L st input) = st \<and>
   model (fst (predict L st input)) = model st \<and>
   mlr (fst (predict L st input)) = mlr st \<and>
   categoryModels (fst (predict L st input)) = categoryModels st \<and>
   predict L (fst (predict L st input)) input = predict L st input"
proof -
  have "fst (predict L st input) = st"
    by (simp add: predict_def Let_def split: option.splits)
  then show ?thesis by simp
qed

subsection \<open>updateModel\<close>

lemma foldl_new_Set_step:
  "set (foldl (\<lambda>s x. if x \<in> set s then s else s @ [x]) acc xs) = set acc \<union> set xs \<and>
   (distinct acc \<longrightarrow> distinct (foldl (\<lambda>s x. if x \<in> set s then s else s @ [x]) acc xs))"
  by (induction xs arbitrary: acc) auto

lemma set_new_Set: "set (new_Set xs) = set xs"
  using foldl_new_Set_step [of "[]" xs] by (simp add: new_Set_def)

lemma distinct_new_Set: "distinct (new_Set xs)"
  using foldl_new_Set_step [of "[]" xs] by (simp add: new_Set_def)

lemma set_categories:
  "set (categories h newData) = {c \<in> set (map (\<lambda>d. category (h d)) newData). Boolean c}"
  by (auto simp: categories_def set_new_Set)

lemma trainCategoryModel_other:
  "k \<noteq> cat \<Longrightarrow>
   categoryModels (fst (trainCategoryModel L st cat data wasteAmounts)) k = categoryModels st k"
  by (simp add: trainCategoryModel_def split: sum.splits)

lemma trainCategoryModel_ok:
  "trainCategoryModel L st cat data wasteAmounts = (st', Inr u) \<Longrightarrow>
   \<exists>net. fitCategoryNet L data wasteAmounts = Inr net \<and>
         st' = st\<lparr>categoryModels := (categoryModels st)(cat \<mapsto> net)\<rparr>"
  by (auto simp: trainCategoryModel_def split: sum.splits)

lemma updateCategories_other:
  "Some k \<notin> set cs \<Longrightarrow>
   categoryModels (fst (updateCategories L h newData newWasteAmounts st cs)) k =
     categoryModels st k"
proof (induction cs arbitrary: st)
  case Nil
  show ?case by simp
next
  case (Cons c cs)
  then have k: "Some k \<noteq> c" and rest: "Some k \<notin> set cs" by auto
  show ?case
  proof (cases c)
    case None
    with Cons.IH [OF rest] show ?thesis by simp
  next
    case (Some cat)
    with k have ne: "k \<noteq> cat" by auto
    obtain st1 res where t:
      "trainCategoryModel L st cat (map h (categoryData h newData (Some cat)))
         (categoryWaste newData newWasteAmounts (categoryData h newData (Some cat))) = (st1, res)"
      by (cases "trainCategoryModel L st cat (map h (categoryData h newData (Some cat)))
         (categoryWaste newData newWasteAmounts (categoryData h newData (Some cat)))") auto
    from trainCategoryModel_other [OF ne, of L st] t
    have 1: "categoryModels st1 k = categoryModels st k"
      by (metis fst_conv)
    show ?thesis
      using Some t 1 Cons.IH [OF rest, of st1] Cons.IH [OF rest, of st]
      by (cases res) simp_all
  qed
qed

lemma updateCategories_upsert:
  assumes "distinct cs"
    and "updateCategories L h newData newWasteAmounts st cs = (st', Inr u)"
    and "Some k \<in> set cs" and "k \<noteq> []"
  shows "\<exists>net. fitCategoryNet L (map h (categoryData h newData (Some k)))
                  (categoryWaste newData newWasteAmounts (categoryData h newData (Some k))) =
                Inr net \<and> categoryModels st' k = Some net"
  using assms
proof (induction cs arbitrary: st)
  case Nil
  then show ?case by simp
next
  case (Cons c cs)
  from Cons.prems(1) have d: "distinct cs" and c: "c \<notin> set cs" by auto
  show ?case
  proof (cases c)
    case None
    with Cons.prems have "updateCategories L h newData newWasteAmounts st cs = (st', Inr u)"
      and "Some k \<in> set cs" by auto
    then show ?thesis using Cons.IH [OF d _ _ Cons.prems(4)] by blast
  next
    case (Some cat)
    show ?thesis
    proof (cases "cat = []")
      case True
      with Some Cons.prems have "updateCategories L h newData newWasteAmounts st cs = (st', Inr u)"
        and "Some k \<in> set cs" by (auto simp: Boolean_def)
      then show ?thesis using Cons.IH [OF d _ _ Cons.prems(4)] by blast
    next
      case False
      obtain st1 res where t:
        "trainCategoryModel L st cat (map h (categoryData h newData (Some cat)))
           (categoryWaste newData newWasteAmounts (categoryData h newData (Some cat))) = (st1, res)"
        by (cases "trainCategoryModel L st cat (map h (categoryData h newData (Some cat)))
           (categoryWaste newData newWasteAmounts (categoryData h newData (Some cat)))") auto
      from Cons.prems(2) Some False t obtain u1 where res: "res = Inr u1"
        and rest: "updateCategories L h newData newWasteAmounts st1 cs = (st', Inr u)"
        by (cases res) (auto simp: Boolean_def)
      from trainCategoryModel_ok [OF t [unfolded res]] obtain net where
        net: "fitCategoryNet L (map h (categoryData h newData (Some cat)))
                (categoryWaste newData newWasteAmounts (categoryData h newData (Some cat))) = Inr net"
        and st1: "st1 = st\<lparr>categoryModels := (categoryModels st)(cat \<mapsto> net)\<rparr>"
        by blast
      show ?thesis
      proof (cases "k = cat")
        case True
        with c Some have "Some k \<notin> set cs" by simp
        from updateCategories_other [OF this, of L h newData newWasteAmounts st1] rest
        have "categoryModels st' k = categoryModels st1 k" by simp
        with st1 True net show ?thesis by simp
      next
        case False
        with Cons.prems(3) Some have "Some k \<in> set cs" by simp
        with Cons.IH [OF d rest _ Cons.prems(4)] show ?thesis by blast
      qed
    qed
  qed
qed

lemma updateModel_other:
  assumes "k = [] \<or> Some k \<notin> set (map (\<lambda>d. category (h d)) newData)"
  shows "categoryModels (fst (updateModel L st h newData newWasteAmounts)) k = categoryModels st k"
proof -
  from assms have nin: "Some k \<notin> set (categories h newData)"
    by (auto simp: set_categories Boolean_def)
  obtain st1 res where t: "train L st (map h newData) newWasteAmounts = (st1, res)"
    by (cases "train L st (map h newData) newWasteAmounts") auto
  with train_categoryModels [of L st "map h newData" newWasteAmounts]
  have 1: "categoryModels st1 = categoryModels st" by simp
  show ?thesis
    using t 1 updateCategories_other [OF nin, of L h newData newWasteAmounts st1]
    by (cases res) (simp_all add: updateModel_def)
qed

lemma updateModel_upsert:
  assumes "updateModel L st h newData newWasteAmounts = (st', Inr u)"
    and "Some k \<in> set (map (\<lambda>d. category (h d)) newData)" and "k \<noteq> []"
  shows "\<exists>net. fitCategoryNet L (map h (categoryData h newData (Some k)))
                  (categoryWaste newData newWasteAmounts (categoryData h newData (Some k))) =
                Inr net \<and> categoryModels st' k = Some net"
proof -
  from assms(2,3) have "Some k \<in> set (categories h newData)"
    by (auto simp: set_categories Boolean_def)
  moreover have "distinct (categories h newData)"
    by (simp add: categories_def distinct_new_Set)
  moreover obtain st1 where
    "updateCategories L h newData newWasteAmounts st1 (categories h newData) = (st', Inr u)"
    using assms(1) by (auto simp: updateModel_def split: prod.splits sum.splits)
  ultimately show ?thesis
    using updateCategories_upsert assms(3) by blast
qed

text \<open>
  The general components after \<open>updateModel\<close> are those that \<open>train\<close> leaves on the
  batch: the loop over the categories changes the per-category map only.
\<close>

lemma trainCategoryModel_general:
  "model (fst (trainCategoryModel L st cat data wasteAmounts)) = model st \<and>
   mlr (fst (trainCategoryModel L st cat data wasteAmounts)) = mlr st"
  by (simp add: trainCategoryModel_def split: sum.splits)

lemma updateCategories_general:
  "model (fst (updateCategories L h newData newWasteAmounts st cs)) = model st \<and>
   mlr (fst (updateCategories L h newData newWasteAmounts st cs)) = mlr st"
proof (induction cs arbitrary: st)
  case Nil
  show ?case by simp
next
  case (Cons c cs)
  show ?case
  proof (cases c)
    case None
    with Cons.IH show ?thesis by simp
  next
    case (Some cat)
    obtain st1 res where t:
      "trainCategoryModel L st cat (map h (categoryData h newData (Some cat)))
         (categoryWaste newData newWasteAmounts (categoryData h newData (Some cat))) = (st1, res)"
      by (cases "trainCategoryModel L st cat (map h (categoryData h newData (Some cat)))
         (categoryWaste newData newWasteAmounts (categoryData h newData (Some cat)))") auto
    from trainCategoryModel_general [of L st cat] t
    have "model st1 = model st \<and> mlr st1 = mlr st"
      by (metis fst_conv)
    with Some t Cons.IH [of st1] Cons.IH [of st] show ?thesis
      by (cases res) simp_all
  qed
qed

lemma updateModel_general:
  "model (fst (updateModel L st h newData newWasteAmounts)) =
     model (fst (train L st (map h newData) newWasteAmounts)) \<and>
   mlr (fst (updateModel L st h newData newWasteAmounts)) =
     mlr (fst (train L st (map h newData) newWasteAmounts))"
proof -
  obtain st1 res where t: "train L st (map h newData) newWasteAmounts = (st1, res)"
    by (cases "train L st (map h newData) newWasteAmounts") auto
  then show ?thesis
    using updateCategories_general [of L h newData newWasteAmounts st1 "categories h newData"]
    by (cases res) (simp_all add: updateModel_def)
qed

lemma train_from_scratch:
  "snd (train L st historicalData wasteAmounts) = Inr () \<Longrightarrow>
   train L st' historicalData wasteAmounts =
     (st'\<lparr>mlr := mlr (fst (train L st historicalData wasteAmounts)),
          model := model (fst (train L st historicalData wasteAmounts))\<rparr>, Inr ())"
  by (auto simp: train_def Let_def split: sum.splits prod.splits option.splits)

text \<open>
  C9 (amended). For every batch and every key \<open>k\<close>: if \<open>k\<close> is the empty string or is
  not the category of a sample of the batch, \<open>updateModel\<close> leaves the entry of \<open>k\<close> as
  it was, whether the call completes or throws. When the call completes, every
  non-empty category \<open>c\<close> of a sample of the batch has as its entry the network that
  was newly fitted on the samples of that category, whatever the entry was before.
\<close>

theorem updateModel_category_frame_and_upsert:
  "((k = [] \<or> Some k \<notin> set (map (\<lambda>d. category (h d)) newData)) \<longrightarrow>
      categoryModels (fst (updateModel L st h newData newWasteAmounts)) k = categoryModels st k) \<and>
   (updateModel L st h newData newWasteAmounts = (st', Inr u) \<and>
    Some c \<in> set (map (\<lambda>d. category (h d)) newData) \<and> c \<noteq> [] \<longrightarrow>
      (\<exists>net. fitCategoryNet L (map h (categoryData h newData (Some c)))
                (categoryWaste newData newWasteAmounts (categoryData h newData (Some c))) =
              Inr net \<and> categoryModels st' c = Some net))"
  using updateModel_other [of k h newData L st newWasteAmounts]
    updateModel_upsert [of L st h newData newWasteAmounts st' u c]
  by blast

theorem updateModel_category_frame_and_upsert_witness:
  "categoryModels
     (fst (updateModel recordingLibrary with_two (\<lambda>r. sample (Some ''Produce'')) [0] [7]))
     ''Dairy'' = categoryModels with_two ''Dairy'' \<and>
   (\<exists>net. fitCategoryNet recordingLibrary
            (map (\<lambda>r. sample (Some ''Produce''))
               (categoryData (\<lambda>r. sample (Some ''Produce'')) [0] (Some ''Produce'')))
            (categoryWaste [0] [7]
               (categoryData (\<lambda>r. sample (Some ''Produce'')) [0] (Some ''Produce''))) =
          Inr net \<and>
          categoryModels
            (fst (updateModel recordingLibrary with_two (\<lambda>r. sample (Some ''Produce'')) [0] [7]))
            ''Produce'' = Some net)"
proof -
  have t: "snd (train recordingLibrary with_two [sample (Some ''Produce'')] [7]) = Inr ()"
    by (simp add: train_def recordingLibrary_def)
  have f: "snd (trainCategoryModel recordingLibrary st ''Produce'' [sample (Some ''Produce'')]
             [Some 7]) = Inr ()" for st :: "(rec_net, rec_mlr) WastePredictionModel"
    by (simp add: trainCategoryModel_def fitCategoryNet_def recordingLibrary_def)
  have d: "categoryData (\<lambda>r. sample (Some ''Produce'')) [0] (Some ''Produce'') = [0]"
    by (simp add: categoryData_def sample_def)
  obtain st1 where t1: "train recordingLibrary with_two [sample (Some ''Produce'')] [7] =
      (st1, Inr ())"
    using t by (metis prod.collapse)
  obtain st2 where t2: "trainCategoryModel recordingLibrary st1 ''Produce''
      [sample (Some ''Produce'')] [Some 7] = (st2, Inr ())"
    using f [of st1] by (metis prod.collapse)
  have "snd (updateModel recordingLibrary with_two (\<lambda>r. sample (Some ''Produce'')) [0] [7]) =
        Inr ()"
    by (simp add: updateModel_def t1 categories_one Boolean_def d categoryWaste_one t2)
  then have s: "updateModel recordingLibrary with_two (\<lambda>r. sample (Some ''Produce'')) [0] [7] =
      (fst (updateModel recordingLibrary with_two (\<lambda>r. sample (Some ''Produce'')) [0] [7]),
       Inr ())"
    by (metis prod.collapse)
  have i: "Some ''Produce'' \<in> set (map (\<lambda>d. category (sample (Some ''Produce''))) [0 :: ref])"
    and o: "Some ''Dairy'' \<notin> set (map (\<lambda>d. category (sample (Some ''Produce''))) [0 :: ref])"
    and n: "''Produce'' \<noteq> []"
    by (simp_all add: sample_def)
  from updateModel_category_frame_and_upsert [where k = "''Dairy''" and c = "''Produce''"
      and h = "\<lambda>r. sample (Some ''Produce'')" and newData = "[0]" and newWasteAmounts = "[7]"
      and L = recordingLibrary and st = with_two and u = "()"
      and st' = "fst (updateModel recordingLibrary with_two (\<lambda>r. sample (Some ''Produce'')) [0] [7])"]
    s i o n
  show ?thesis by blast
qed

text \<open>
  C9, as stated, fails: the map has a component under the empty string, the batch has
  a sample of that category, the call completes, and the component is the old one.
\<close>

theorem empty_category_not_upserted:
  "category (sample (Some [])) = Some [] \<and>
   categoryModels with_empty_key [] =
     Some (categoryLayers, Some ([[Some 1, Some 0, Some 0, Some 0, Some 1]], [[Some 1]])) \<and>
   snd (updateModel recordingLibrary with_empty_key (\<lambda>r. sample (Some [])) [0] [5]) = Inr () \<and>
   categoryModels
     (fst (updateModel recordingLibrary with_empty_key (\<lambda>r. sample (Some [])) [0] [5])) [] =
     Some (categoryLayers, Some ([[Some 1, Some 0, Some 0, Some 0, Some 1]], [[Some 1]]))"
proof -
  have t: "train recordingLibrary with_empty_key [sample (Some [])] [5] =
           (with_empty_key\<lparr>
              mlr := Some ([[1, 0, 0, 0, 1]], [[5]]),
              model := Some (generalLayers,
                Some ([[Some 1, Some 0, Some 0, Some 0, Some 1]], [[Some 5]]))\<rparr>, Inr ())"
    by (simp add: train_def recordingLibrary_def sample_def inputArray_def)
  show ?thesis
    by (simp add: updateModel_def t categories_one) (simp add: with_empty_key_eq sample_def)
qed

text \<open>
  When no object occurs twice in the batch and the arrays have equal lengths,
  \<open>findIndex\<close> recovers each sample's own index, so the targets of a category are
  those at the indices of its samples.
\<close>

lemma findIndex_distinct:
  "distinct xs \<Longrightarrow> i < length xs \<Longrightarrow> findIndex (\<lambda>nd. nd = xs ! i) xs = int i"
proof (induction xs arbitrary: i)
  case Nil
  then show ?case by simp
next
  case (Cons x xs)
  show ?case
  proof (cases i)
    case 0
    then show ?thesis by simp
  next
    case (Suc j)
    with Cons.prems have j: "j < length xs" and "xs ! j \<noteq> x" by auto
    with Cons.IH [of j] Cons.prems(1) Suc show ?thesis by (simp add: Let_def)
  qed
qed

lemma categoryWaste_map:
  "categoryWaste newData newWasteAmounts catData =
     map (\<lambda>d. at_index newWasteAmounts (findIndex (\<lambda>nd. nd = d) newData)) catData"
proof -
  have "map (\<lambda>i. at_index newWasteAmounts (findIndex (\<lambda>nd. nd = catData ! i) newData))
          [0..<length catData] =
        map (\<lambda>d. at_index newWasteAmounts (findIndex (\<lambda>nd. nd = d) newData))
          (map ((!) catData) [0..<length catData])"
    by simp
  then show ?thesis
    by (simp only: categoryWaste_def map_nth)
qed

lemma categoryData_indices:
  "categoryData h newData c =
     map ((!) newData) (filter (\<lambda>i. category (h (newData ! i)) = c) [0..<length newData])"
proof -
  have "filter (\<lambda>d. category (h d) = c) (map ((!) newData) [0..<length newData]) =
        map ((!) newData)
          (filter ((\<lambda>d. category (h d) = c) \<circ> (!) newData) [0..<length newData])"
    by (rule filter_map)
  then show ?thesis
    by (simp add: categoryData_def map_nth comp_def)
qed

lemma categoryWaste_distinct:
  assumes "distinct newData" and "length newWasteAmounts = length newData"
  shows "categoryWaste newData newWasteAmounts (categoryData h newData c) =
           map (\<lambda>i. Some (newWasteAmounts ! i))
             (filter (\<lambda>i. category (h (newData ! i)) = c) [0..<length newData])"
proof -
  have "at_index newWasteAmounts (findIndex (\<lambda>nd. nd = newData ! i) newData) =
        Some (newWasteAmounts ! i)" if "i < length newData" for i
    using that assms by (simp add: findIndex_distinct at_index_def)
  then show ?thesis
    by (simp add: categoryWaste_map categoryData_indices)
qed

text \<open>
  C7. The batch holds the same object twice (reference 0), with targets 1 and 2. Pairing
  by index gives the category the targets 1 and 2; the source looks the index up with
  \<open>findIndex\<close>, finds the first occurrence both times, and fits the category's network
  on the targets 1 and 1.
\<close>

theorem repeated_sample_gets_first_target:
  "categoryData (\<lambda>r. sample (Some ''Produce'')) [0, 0] (Some ''Produce'') = [0, 0] \<and>
   categoryWaste [0, 0] [1, 2] [0, 0] = [Some 1, Some 1] \<and>
   categoryModels
     (fst (updateModel recordingLibrary new_WastePredictionModel
             (\<lambda>r. sample (Some ''Produce'')) [0, 0] [1, 2])) ''Produce'' =
     Some (categoryLayers,
           Some ([[Some 1, Some 0, Some 0, Some 0, Some 1],
                  [Some 1, Some 0, Some 0, Some 0, Some 1]], [[Some 1], [Some 1]]))"
proof -
  have d: "categoryData (\<lambda>r. sample (Some ''Produce'')) [0, 0] (Some ''Produce'') = [0, 0]"
    by (simp add: categoryData_def sample_def)
  have t: "train recordingLibrary new_WastePredictionModel
             [sample (Some ''Produce''), sample (Some ''Produce'')] [1, 2] =
           (\<lparr>model = Some (generalLayers,
                Some ([[Some 1, Some 0, Some 0, Some 0, Some 1],
                       [Some 1, Some 0, Some 0, Some 0, Some 1]], [[Some 1], [Some 2]])),
             mlr = Some ([[1, 0, 0, 0, 1], [1, 0, 0, 0, 1]], [[1], [2]]),
             categoryModels = Map.empty\<rparr>, Inr ())"
    by (simp add: train_def recordingLibrary_def new_WastePredictionModel_def sample_def
        inputArray_def)
  have f: "fitCategoryNet recordingLibrary
             [sample (Some ''Produce''), sample (Some ''Produce'')] [Some 1, Some 1] =
           Inr (categoryLayers,
                Some ([[Some 1, Some 0, Some 0, Some 0, Some 1],
                       [Some 1, Some 0, Some 0, Some 0, Some 1]], [[Some 1], [Some 1]]))"
    by (simp add: fitCategoryNet_def recordingLibrary_def sample_def inputArray_def)
  show ?thesis
    by (simp add: d categoryWaste_twice updateModel_def t categories_twice Boolean_def
        trainCategoryModel_def f)
qed

end
